theory Spec2Isabelle
  imports Main "HOL-Library.Word"
begin

section \<open>Python values and exceptions\<close>

text \<open>
  Byte strings (\<^verbatim>\<open>bytes\<close>) are lists of 8-bit words; text strings are \<^typ>\<open>string\<close>.
  Every exception the modelled code can raise is a value of \<open>error\<close>, and a function
  that can raise returns \<open>error + 'a\<close> with \<open>Inl\<close> for the raised exception.
  The string carried by an exception is its message.
\<close>

type_synonym byte = "8 word"
type_synonym bytes = "byte list"

datatype error =
    ValueError string
  | TypeError string
  | UnboundLocalError string
  | IndexError string
  | AccountInvalidDiscriminator string
  | StreamError string
  | OtherError string

section \<open>Public keys (library \<^verbatim>\<open>solana.publickey\<close>, not part of the repository)\<close>

text \<open>
  A \<^verbatim>\<open>PublicKey\<close> is compared by the library through its 32-byte value \<^verbatim>\<open>bytes(pk)\<close>;
  the model keeps exactly that value. \<^verbatim>\<open>str(pk)\<close> is the Base58 text of the 32 bytes and
  \<^verbatim>\<open>PublicKey(s)\<close> on a string decodes Base58 and insists on 32 bytes. The Base58 routines
  follow the \<^verbatim>\<open>base58\<close> package: leading zero bytes become leading \<^verbatim>\<open>1\<close> characters, the
  rest is the big-endian number written in base 58. The decoder's stripping of trailing
  white space is left out; the text of a key has none.
\<close>

definition b58_alphabet :: string where
  "b58_alphabet = ''123456789ABCDEFGHJKLMNPQRSTUVWXYZabcdefghijkmnopqrstuvwxyz''"

fun index_of :: "'a \<Rightarrow> 'a list \<Rightarrow> nat option" where
  "index_of x [] = None"
| "index_of x (y # ys) = (if x = y then Some 0 else map_option Suc (index_of x ys))"

text \<open>\<^verbatim>\<open>int.from_bytes(v, byteorder='big')\<close>\<close>

fun int_from_bytes_big :: "bytes \<Rightarrow> nat \<Rightarrow> nat" where
  "int_from_bytes_big [] acc = acc"
| "int_from_bytes_big (b # bs) acc = int_from_bytes_big bs (acc * 256 + unat b)"

text \<open>
  \<^verbatim>\<open>while i: i, idx = divmod(i, 58); string = alphabet[idx:idx+1] + string\<close>
\<close>

function b58encode_int :: "nat \<Rightarrow> string \<Rightarrow> string" where
  "b58encode_int i s =
     (if i = 0 then s else b58encode_int (i div 58) (b58_alphabet ! (i mod 58) # s))"
  by pat_completeness auto
termination
  by (relation "measure (\<lambda>(i, s). i)") auto

definition b58encode :: "bytes \<Rightarrow> string" where
  "b58encode v =
     (let v' = dropWhile (\<lambda>b. b = 0) v
      in replicate (length v - length v') (CHR ''1'') @ b58encode_int (int_from_bytes_big v' 0) [])"

text \<open>
  \<^verbatim>\<open>for char in v: decimal = decimal * 58 + map[char]\<close>, a character outside the alphabet
  raising \<^verbatim>\<open>ValueError\<close>.
\<close>

fun b58decode_int :: "string \<Rightarrow> nat \<Rightarrow> error + nat" where
  "b58decode_int [] decimal = Inr decimal"
| "b58decode_int (c # cs) decimal =
     (case index_of c b58_alphabet of
        None \<Rightarrow> Inl (ValueError ''Invalid character'')
      | Some d \<Rightarrow> b58decode_int cs (decimal * 58 + d))"

text \<open>
  \<^verbatim>\<open>while acc > 0: acc, mod = divmod(acc, 256); result.append(mod)\<close>, the result read
  in reverse: the model puts each new byte in front.
\<close>

function bytes_of_int_big :: "nat \<Rightarrow> bytes \<Rightarrow> bytes" where
  "bytes_of_int_big acc result =
     (if acc = 0 then result else bytes_of_int_big (acc div 256) (of_nat (acc mod 256) # result))"
  by pat_completeness auto
termination
  by (relation "measure (\<lambda>(acc, result). acc)") auto

definition b58decode :: "string \<Rightarrow> error + bytes" where
  "b58decode v =
     (let v' = dropWhile (\<lambda>c. c = CHR ''1'') v
      in case b58decode_int v' 0 of
           Inl e \<Rightarrow> Inl e
         | Inr acc \<Rightarrow> Inr (replicate (length v - length v') 0 @ bytes_of_int_big acc []))"

datatype PublicKey = PublicKey (key_bytes: bytes)

definition PublicKey_LENGTH :: nat where
  "PublicKey_LENGTH = 32"

definition PublicKey_str :: "PublicKey \<Rightarrow> string" where
  "PublicKey_str pk = b58encode (key_bytes pk)"

definition PublicKey_of_str :: "string \<Rightarrow> error + PublicKey" where
  "PublicKey_of_str s =
     (case b58decode s of
        Inl e \<Rightarrow> Inl (ValueError ''invalid public key input'')
      | Inr k \<Rightarrow>
          if length k \<noteq> PublicKey_LENGTH then Inl (ValueError ''invalid public key input'')
          else Inr (PublicKey k))"

section \<open>The generated account client: \<^verbatim>\<open>examples/client-gen/basic_2/accounts/counter.py\<close>\<close>

record Counter =
  authority :: PublicKey
  count :: int

record CounterJSON =
  json_authority :: string
  json_count :: int

definition discriminator :: bytes where
  "discriminator = [0xff, 0xb0, 0x04, 0xf5, 0xbc, 0xfd, 0x7c, 0x19]"

text \<open>
  Modelled from the spec: \<^verbatim>\<open>anchorpy.coder.accounts.ACCOUNT_DISCRIMINATOR_SIZE\<close> is not among
  the sources; the specification fixes the discriminator at 8 bytes.
\<close>

definition ACCOUNT_DISCRIMINATOR_SIZE :: nat where
  "ACCOUNT_DISCRIMINATOR_SIZE = 8"

text \<open>
  Modelled from the spec: the layout \<^verbatim>\<open>borsh.CStruct("authority" / BorshPubkey, "count" / borsh.U64)\<close>
  is built from \<^verbatim>\<open>anchorpy.borsh_extension\<close> and \<^verbatim>\<open>borsh_construct\<close>, neither among the
  sources. By the specification a struct is the concatenation of its fields in declaration
  order, unpadded and little-endian; an address is 32 bytes and a \<^verbatim>\<open>u64\<close> 8 bytes. A field
  that finds too few bytes raises the parser's stream error; bytes after the last field are
  ignored.
\<close>

fun int_from_bytes_little :: "bytes \<Rightarrow> int" where
  "int_from_bytes_little [] = 0"
| "int_from_bytes_little (b # bs) = uint b + 256 * int_from_bytes_little bs"

definition BorshPubkey_parse :: "bytes \<Rightarrow> error + (PublicKey \<times> bytes)" where
  "BorshPubkey_parse s =
     (if length s < 32 then Inl (StreamError ''stream read less than specified amount'')
      else Inr (PublicKey (take 32 s), drop 32 s))"

definition U64_parse :: "bytes \<Rightarrow> error + (int \<times> bytes)" where
  "U64_parse s =
     (if length s < 8 then Inl (StreamError ''stream read less than specified amount'')
      else Inr (int_from_bytes_little (take 8 s), drop 8 s))"

definition layout_parse :: "bytes \<Rightarrow> error + (PublicKey \<times> int)" where
  "layout_parse s =
     (case BorshPubkey_parse s of
        Inl e \<Rightarrow> Inl e
      | Inr (a, rest) \<Rightarrow>
          (case U64_parse rest of
             Inl e \<Rightarrow> Inl e
           | Inr (c, rest') \<Rightarrow> Inr (a, c)))"

text \<open>
  \<^verbatim>\<open>Counter.decode\<close>. A Python slice never raises: \<^verbatim>\<open>data[:8]\<close> of a shorter string is the
  whole string, as \<^term>\<open>take\<close> is, and \<^verbatim>\<open>data[8:]\<close> is then empty, as \<^term>\<open>drop\<close> is.
\<close>

definition decode :: "bytes \<Rightarrow> error + Counter" where
  "decode bytes_data =
     (if take ACCOUNT_DISCRIMINATOR_SIZE bytes_data \<noteq> discriminator
      then Inl (AccountInvalidDiscriminator ''The discriminator for this account is invalid'')
      else case layout_parse (drop ACCOUNT_DISCRIMINATOR_SIZE bytes_data) of
             Inl e \<Rightarrow> Inl e
           | Inr dec \<Rightarrow> Inr \<lparr>authority = fst dec, count = snd dec\<rparr>)"

text \<open>
  The value of an RPC response, \<^verbatim>\<open>resp["result"]["value"]\<close>: absent, or the account's
  owner (a Base58 string) and its data (a list whose first element is Base64 text).
  The connection is the external collaborator; it may itself fail.
\<close>

record AccountInfo =
  owner :: string
  data :: "string list"

type_synonym Commitment = string

record 'a AsyncClient =
  get_account_info :: "'a \<Rightarrow> Commitment option \<Rightarrow> error + AccountInfo option"
  get_multiple_accounts :: "'a list \<Rightarrow> Commitment option \<Rightarrow> error + AccountInfo option list"

text \<open>
  \<^verbatim>\<open>Counter.fetch\<close>. The program id (\<^verbatim>\<open>..program_id.PROGRAM_ID\<close>, not among the sources) and
  the standard library's \<^verbatim>\<open>b64decode\<close> are parameters.
\<close>

definition fetch ::
  "PublicKey \<Rightarrow> (string \<Rightarrow> error + bytes) \<Rightarrow> 'a AsyncClient \<Rightarrow> 'a \<Rightarrow> Commitment option
     \<Rightarrow> error + Counter option" where
  "fetch PROGRAM_ID b64decode conn address commitment =
     (case get_account_info conn address commitment of
        Inl e \<Rightarrow> Inl e
      | Inr None \<Rightarrow> Inr None
      | Inr (Some info) \<Rightarrow>
          if owner info \<noteq> PublicKey_str PROGRAM_ID
          then Inl (ValueError ''Account does not belong to this program'')
          else (case data info of
                  [] \<Rightarrow> Inl (IndexError ''list index out of range'')
                | d # _ \<Rightarrow>
                    (case b64decode d of
                       Inl e \<Rightarrow> Inl e
                     | Inr bytes_data \<Rightarrow>
                         (case decode bytes_data of
                            Inl e \<Rightarrow> Inl e
                          | Inr c \<Rightarrow> Inr (Some c)))))"

text \<open>
  \<^verbatim>\<open>Counter.fetch_multiple\<close>. The loop body has two \<^verbatim>\<open>if\<close> statements in sequence, not an
  \<^verbatim>\<open>if\<close>/\<^verbatim>\<open>else\<close>: after \<^verbatim>\<open>res.append(None)\<close> control reaches \<^verbatim>\<open>info["owner"]\<close> with
  \<^verbatim>\<open>info\<close> still \<^verbatim>\<open>None\<close>, and subscripting \<^verbatim>\<open>None\<close> raises \<^verbatim>\<open>TypeError\<close>.
\<close>

fun fetch_multiple_loop ::
  "PublicKey \<Rightarrow> (string \<Rightarrow> error + bytes) \<Rightarrow> AccountInfo option list \<Rightarrow> Counter option list
     \<Rightarrow> error + Counter option list" where
  "fetch_multiple_loop PROGRAM_ID b64decode [] res = Inr res"
| "fetch_multiple_loop PROGRAM_ID b64decode (info # infos) res =
     (let res1 = (if info = None then res @ [None] else res)
      in case info of
           None \<Rightarrow> Inl (TypeError ''NoneType object is not subscriptable'')
         | Some i \<Rightarrow>
             if owner i \<noteq> PublicKey_str PROGRAM_ID
             then Inl (ValueError ''Account does not belong to this program'')
             else (case data i of
                     [] \<Rightarrow> Inl (IndexError ''list index out of range'')
                   | d # _ \<Rightarrow>
                       (case b64decode d of
                          Inl e \<Rightarrow> Inl e
                        | Inr bytes_data \<Rightarrow>
                            (case decode bytes_data of
                               Inl e \<Rightarrow> Inl e
                             | Inr c \<Rightarrow>
                                 fetch_multiple_loop PROGRAM_ID b64decode infos (res1 @ [Some c])))))"

definition fetch_multiple ::
  "PublicKey \<Rightarrow> (string \<Rightarrow> error + bytes) \<Rightarrow> 'a AsyncClient \<Rightarrow> 'a list \<Rightarrow> Commitment option
     \<Rightarrow> error + Counter option list" where
  "fetch_multiple PROGRAM_ID b64decode conn addresses commitment =
     (case get_multiple_accounts conn addresses commitment of
        Inl e \<Rightarrow> Inl e
      | Inr infos \<Rightarrow> fetch_multiple_loop PROGRAM_ID b64decode infos [])"

text \<open>\<^verbatim>\<open>Counter.to_json\<close> and \<^verbatim>\<open>Counter.from_json\<close>\<close>

definition to_json :: "Counter \<Rightarrow> CounterJSON" where
  "to_json self = \<lparr>json_authority = PublicKey_str (authority self), json_count = count self\<rparr>"

definition from_json :: "CounterJSON \<Rightarrow> error + Counter" where
  "from_json obj =
     (case PublicKey_of_str (json_authority obj) of
        Inl e \<Rightarrow> Inl e
      | Inr a \<Rightarrow> Inr \<lparr>authority = a, count = json_count obj\<rparr>)"

section \<open>The generated error module: \<^verbatim>\<open>examples/client-gen/tictactoe/errors/__init__.py\<close>\<close>

text \<open>
  \<^verbatim>\<open>from_code\<close>. The sibling modules \<^verbatim>\<open>custom\<close> and \<^verbatim>\<open>anchor\<close> are not among the sources;
  each offers a \<^verbatim>\<open>from_code\<close> that looks the code up in its own table and answers \<^verbatim>\<open>None\<close>
  for a code it does not list. The two lookups are parameters, as partial maps. The result
  is a custom error (\<open>Inl\<close>), a framework error (\<open>Inr\<close>) or \<^verbatim>\<open>None\<close>.
\<close>

definition from_code :: "(int \<rightharpoonup> 'c) \<Rightarrow> (int \<rightharpoonup> 'a) \<Rightarrow> int \<Rightarrow> ('c + 'a) option" where
  "from_code custom_from_code anchor_from_code code =
     (if code \<ge> 6000 then map_option Inl (custom_from_code code)
      else map_option Inr (anchor_from_code code))"

text \<open>
  The pattern \<^verbatim>\<open>Program (\w+) failed: custom program error: (\w+)\<close>, applied with
  \<^verbatim>\<open>re.match\<close>: anchored at the start of the line, free at its end. Log lines are taken to
  be ASCII, where \<^verbatim>\<open>\w\<close> is a letter, a digit or the underscore. The character after the
  first group must be a space, which is no word character, so the first group can only be
  the longest run of word characters; the second group is greedy and nothing follows it,
  so it is the longest run as well.
\<close>

definition is_word :: "char \<Rightarrow> bool" where
  "is_word c =
     (let n = (of_char c :: nat)
      in (48 \<le> n \<and> n \<le> 57) \<or> (65 \<le> n \<and> n \<le> 90) \<or> n = 95 \<or> (97 \<le> n \<and> n \<le> 122))"

fun strip_prefix :: "string \<Rightarrow> string \<Rightarrow> string option" where
  "strip_prefix [] s = Some s"
| "strip_prefix (p # ps) [] = None"
| "strip_prefix (p # ps) (c # cs) = (if p = c then strip_prefix ps cs else None)"

definition error_re_match :: "string \<Rightarrow> (string \<times> string) option" where
  "error_re_match logline =
     (case strip_prefix ''Program '' logline of
        None \<Rightarrow> None
      | Some r1 \<Rightarrow>
          let g1 = takeWhile is_word r1
          in if g1 = [] then None
             else (case strip_prefix '' failed: custom program error: '' (dropWhile is_word r1) of
                     None \<Rightarrow> None
                   | Some r2 \<Rightarrow>
                       let g2 = takeWhile is_word r2
                       in if g2 = [] then None else Some (g1, g2)))"

text \<open>
  The local variable \<^verbatim>\<open>first_match\<close> is assigned only inside the loop body: before the
  first iteration it is unbound. The loop leaves at the first line that matches.
\<close>

datatype 'a local_var = Unbound | Bound 'a

fun scan_logs ::
  "string list \<Rightarrow> (string \<times> string) option local_var \<Rightarrow> (string \<times> string) option local_var" where
  "scan_logs [] first_match = first_match"
| "scan_logs (logline # logs) first_match =
     (case error_re_match logline of
        Some groups \<Rightarrow> Bound (Some groups)
      | None \<Rightarrow> scan_logs logs (Bound None))"

text \<open>
  \<^verbatim>\<open>code_raw(16)\<close> calls a string as if it were a function. Python raises \<^verbatim>\<open>TypeError\<close> for
  every string and every argument, so there is never a value for \<^verbatim>\<open>int\<close> to convert.
\<close>

definition call_str :: "string \<Rightarrow> int \<Rightarrow> error + int" where
  "call_str f arg = Inl (TypeError ''str object is not callable'')"

text \<open>
  \<^verbatim>\<open>from_tx_error\<close>. The argument is the entry \<^verbatim>\<open>"logs"\<close> of the error, \<open>None\<close> when the
  error has no such entry. The program id (\<^verbatim>\<open>.program_id.PROGRAM_ID\<close>, not among the
  sources) is a parameter. The \<^verbatim>\<open>except ValueError\<close> clause catches that exception only.
\<close>

definition from_tx_error ::
  "PublicKey \<Rightarrow> (int \<rightharpoonup> 'c) \<Rightarrow> (int \<rightharpoonup> 'a) \<Rightarrow> string list option \<Rightarrow> error + ('c + 'a) option" where
  "from_tx_error PROGRAM_ID custom_from_code anchor_from_code error_logs =
     (case error_logs of
        None \<Rightarrow> Inr None
      | Some logs \<Rightarrow>
          (case scan_logs logs Unbound of
             Unbound \<Rightarrow>
               Inl (UnboundLocalError ''local variable first_match referenced before assignment'')
           | Bound None \<Rightarrow> Inr None
           | Bound (Some (program_id_raw, code_raw)) \<Rightarrow>
               if program_id_raw \<noteq> PublicKey_str PROGRAM_ID then Inr None
               else (case call_str code_raw 16 of
                       Inl (ValueError m) \<Rightarrow> Inr None
                     | Inl e \<Rightarrow> Inl e
                     | Inr error_code \<Rightarrow>
                         Inr (from_code custom_from_code anchor_from_code error_code))))"

section \<open>The instruction generator: \<^verbatim>\<open>src/anchorpy/clientgen/instructions.py\<close>\<close>

text \<open>
  The IDL classes (\<^verbatim>\<open>anchorpy.idl\<close>) as the generator reads them. An account item is a leaf
  (\<^verbatim>\<open>_IdlAccount\<close>: name, \<^verbatim>\<open>is_mut\<close>, \<^verbatim>\<open>is_signer\<close>) or a named group of items
  (\<^verbatim>\<open>_IdlAccounts\<close>). The type expressions of arguments and the type definitions of the IDL
  are only handed on to helpers, so they stay type parameters.
\<close>

datatype IdlAccountItem =
    IdlAccount string bool bool
  | IdlAccounts string "IdlAccountItem list"

record 'ty IdlField =
  arg_name :: string
  arg_type :: 'ty

record 'ty IdlInstruction =
  ix_name :: string
  ix_accounts :: "IdlAccountItem list"
  ix_args :: "'ty IdlField list"

record ('ty, 'td) Idl =
  instructions :: "'ty IdlInstruction list"
  types :: "'td list"

text \<open>
  The nodes of generated source (\<^verbatim>\<open>genpy\<close> and \<^verbatim>\<open>anchorpy.clientgen.utils\<close>). The value of
  an assignment is source text, a list of source texts (\<^verbatim>\<open>List\<close>) or a bytes literal.
\<close>

datatype TypedParam = TypedParam string string

datatype StrDictEntry = StrDictEntry string string

datatype py_value = Src string | ListOf "string list" | BytesLit bytes

datatype py_node =
    Import string
  | FromImport string "string list"
  | ImportAs string string
  | Assign string py_value
  | Return string
  | TypedDict string "TypedParam list"
  | Suite "py_node list"
  | Function string "TypedParam list" py_node string
  | Collection "py_node list"

text \<open>
  What the generator calls and the sources do not contain: \<^verbatim>\<open>pyheck.upper_camel\<close>,
  \<^verbatim>\<open>_sighash\<close>, \<^verbatim>\<open>_py_type_from_idl\<close>, \<^verbatim>\<open>_layout_for_type\<close>, \<^verbatim>\<open>_field_to_encodable\<close>, the text
  of a \<^verbatim>\<open>StrDict\<close>, the text of a whole file (\<^verbatim>\<open>str(contents)\<close>) and the path
  \<^verbatim>\<open>(out / name).with_suffix(".py")\<close>. They are parameters, collected in one record.
\<close>

record ('ty, 'td, 'path) helpers =
  upper_camel :: "string \<Rightarrow> string"
  sighash :: "string \<Rightarrow> bytes"
  py_type_from_idl :: "('ty, 'td) Idl \<Rightarrow> 'ty \<Rightarrow> string"
  layout_for_type :: "'ty \<Rightarrow> string \<Rightarrow> string"
  field_to_encodable :: "('ty, 'td) Idl \<Rightarrow> 'ty IdlField \<Rightarrow> string \<Rightarrow> string \<Rightarrow> string"
  StrDict_str :: "StrDictEntry list \<Rightarrow> string"
  node_str :: "py_node \<Rightarrow> string"
  py_file :: "'path \<Rightarrow> string \<Rightarrow> 'path"

definition args_interface_name :: "('ty, 'td, 'path) helpers \<Rightarrow> string \<Rightarrow> string" where
  "args_interface_name h name = upper_camel h name @ ''Args''"

definition accounts_interface_name :: "('ty, 'td, 'path) helpers \<Rightarrow> string \<Rightarrow> string" where
  "accounts_interface_name h name = upper_camel h name @ ''Accounts''"

text \<open>Python's \<^verbatim>\<open>str\<close> of a boolean, as an f-string writes it.\<close>

definition str_bool :: "bool \<Rightarrow> string" where
  "str_bool b = (if b then ''True'' else ''False'')"

text \<open>One subscript of the accessor: an opening bracket, the key in double quotes, a closing bracket.\<close>

definition dict_key :: "string \<Rightarrow> string" where
  "dict_key key = ''['' @ [CHR 0x22] @ key @ [CHR 0x22] @ '']''"

text \<open>The text appended for a leaf whose path of names is \<open>names\<close>.\<close>

definition account_meta_src :: "string list \<Rightarrow> bool \<Rightarrow> bool \<Rightarrow> string" where
  "account_meta_src names is_signer is_mut =
     ''AccountMeta(pubkey=accounts'' @ concat (map dict_key names) @ '', ''
       @ ''is_signer='' @ str_bool is_signer @ '', ''
       @ ''is_writable='' @ str_bool is_mut @ '')''"

text \<open>
  \<^verbatim>\<open>recurse_accounts\<close>. The loop over \<open>accs\<close> extends \<^verbatim>\<open>elements\<close> item by item; the model
  returns what one item contributes, followed by what the rest of the loop contributes.
\<close>

fun recurse_accounts :: "IdlAccountItem list \<Rightarrow> string list \<Rightarrow> string list" where
  "recurse_accounts [] nested_names = []"
| "recurse_accounts (IdlAccounts name accounts # accs) nested_names =
     recurse_accounts accounts (nested_names @ [name]) @ recurse_accounts accs nested_names"
| "recurse_accounts (IdlAccount name is_mut is_signer # accs) nested_names =
     account_meta_src (nested_names @ [name]) is_signer is_mut # recurse_accounts accs nested_names"

text \<open>
  \<^verbatim>\<open>gen_accounts\<close>: the loop carries \<^verbatim>\<open>params\<close> and \<^verbatim>\<open>extra_typeddicts_to_use\<close>; a nested
  group adds a parameter and the dictionaries of the recursive call.
\<close>

fun gen_accounts ::
    "('ty, 'td, 'path) helpers \<Rightarrow> string \<Rightarrow> IdlAccountItem list \<Rightarrow> py_node list option \<Rightarrow> py_node list"
  and gen_accounts_loop ::
    "('ty, 'td, 'path) helpers \<Rightarrow> IdlAccountItem list \<Rightarrow> TypedParam list \<Rightarrow> py_node list
       \<Rightarrow> TypedParam list \<times> py_node list" where
  "gen_accounts h name idl_accs extra_typeddicts =
     (let extra_typeddicts_to_use = (case extra_typeddicts of None \<Rightarrow> [] | Some e \<Rightarrow> e);
          (params, extra) = gen_accounts_loop h idl_accs [] extra_typeddicts_to_use
      in TypedDict name params # extra)"
| "gen_accounts_loop h [] params extra = (params, extra)"
| "gen_accounts_loop h (IdlAccounts name accounts # accs) params extra =
     (let nested_acc_name = upper_camel h name @ ''Nested''
      in gen_accounts_loop h accs (params @ [TypedParam name nested_acc_name])
           (extra @ gen_accounts h nested_acc_name accounts (Some extra)))"
| "gen_accounts_loop h (IdlAccount name is_mut is_signer # accs) params extra =
     gen_accounts_loop h accs (params @ [TypedParam name ''PublicKey'']) extra"

text \<open>\<^verbatim>\<open>','.join(items)\<close>\<close>

fun join :: "string \<Rightarrow> string list \<Rightarrow> string" where
  "join sep [] = []"
| "join sep [x] = x"
| "join sep (x # y # ys) = x @ sep @ join sep (y # ys)"

text \<open>
  \<^verbatim>\<open>gen_instructions_code\<close>. The body of the loop over the instructions is given in two
  parts: \<open>gen_instruction_function\<close> is the \<^verbatim>\<open>Function\<close> node \<^verbatim>\<open>ix_fn\<close> with what it is
  built from, \<open>gen_instruction_contents\<close> the \<^verbatim>\<open>Collection\<close> around it. Both branches of
  \<^verbatim>\<open>if ix.args\<close> are kept as written: the \<^verbatim>\<open>else\<close> branch empties all four containers,
  \<^verbatim>\<open>accounts_container\<close> among them. The loop stores the text of each collection under the
  instruction's file name.
\<close>

definition imports_of :: "('ty, 'td) Idl \<Rightarrow> py_node list" where
  "imports_of idl =
     [Import ''typing'',
      FromImport ''solana.publickey'' [''PublicKey''],
      FromImport ''solana.transaction'' [''TransactionInstruction'', ''AccountMeta''],
      ImportAs ''borsh_construct'' ''borsh'']
     @ (if types idl \<noteq> [] then [FromImport ''..'' [''types'']] else [])
     @ [FromImport ''..program_id'' [''PROGRAM_ID'']]"

definition gen_instruction_function ::
  "('ty, 'td, 'path) helpers \<Rightarrow> ('ty, 'td) Idl \<Rightarrow> 'ty IdlInstruction \<Rightarrow> py_node" where
  "gen_instruction_function h idl ix =
     (let encoded_args_entries =
            map (\<lambda>arg. StrDictEntry (arg_name arg)
                   (field_to_encodable h idl arg (''args['' @ [CHR 0x22]) ([CHR 0x22] @ '']'')))
              (ix_args ix);
          accounts_name = accounts_interface_name h (ix_name ix);
          args_container =
            (if ix_args ix \<noteq> [] then [TypedParam ''args'' (args_interface_name h (ix_name ix))]
             else []);
          accounts_container =
            (if ix_args ix \<noteq> [] then [TypedParam ''accounts'' accounts_name]
             else []);
          keys_assignment = Assign ''keys'' (ListOf (recurse_accounts (ix_accounts ix) []));
          identifier_assignment = Assign ''identifier'' (BytesLit (sighash h (ix_name ix)));
          encoded_args_assignment =
            Assign ''encoded_args''
              (Src (''layout.build('' @ StrDict_str h encoded_args_entries @ '')''));
          data_assignment = Assign ''data'' (Src ''identifier + encoded_args'');
          returning = Return ''TransactionInstruction(data, keys, PROGRAM_ID)''
      in Function (ix_name ix) (args_container @ accounts_container)
           (Suite [keys_assignment, identifier_assignment, encoded_args_assignment,
                   data_assignment, returning])
           ''TransactionInstruction'')"

definition gen_instruction_contents ::
  "('ty, 'td, 'path) helpers \<Rightarrow> ('ty, 'td) Idl \<Rightarrow> 'ty IdlInstruction \<Rightarrow> py_node" where
  "gen_instruction_contents h idl ix =
     (let args_interface_params =
            map (\<lambda>arg. TypedParam (arg_name arg) (py_type_from_idl h idl (arg_type arg))) (ix_args ix);
          layout_items = map (\<lambda>arg. layout_for_type h (arg_type arg) (arg_name arg)) (ix_args ix);
          args_interface_container =
            (if ix_args ix \<noteq> []
             then [TypedDict (args_interface_name h (ix_name ix)) args_interface_params]
             else []);
          layout_assignment_container =
            (if ix_args ix \<noteq> []
             then [Assign ''layout'' (Src (''borsh.CStruct('' @ join '','' layout_items @ '')''))]
             else []);
          accounts = gen_accounts h (accounts_interface_name h (ix_name ix)) (ix_accounts ix) None;
          ix_fn = gen_instruction_function h idl ix
      in Collection
           (imports_of idl @ args_interface_container @ layout_assignment_container
              @ accounts @ [ix_fn]))"

fun gen_instructions_loop ::
  "('ty, 'td, 'path) helpers \<Rightarrow> ('ty, 'td) Idl \<Rightarrow> 'path \<Rightarrow> 'ty IdlInstruction list
     \<Rightarrow> ('path \<rightharpoonup> string) \<Rightarrow> ('path \<rightharpoonup> string)" where
  "gen_instructions_loop h idl out [] result = result"
| "gen_instructions_loop h idl out (ix # ixs) result =
     gen_instructions_loop h idl out ixs
       (result(py_file h out (ix_name ix) \<mapsto> node_str h (gen_instruction_contents h idl ix)))"

definition gen_instructions_code ::
  "('ty, 'td, 'path) helpers \<Rightarrow> ('ty, 'td) Idl \<Rightarrow> 'path \<Rightarrow> ('path \<rightharpoonup> string)" where
  "gen_instructions_code h idl out = gen_instructions_loop h idl out (instructions idl) Map.empty"

text \<open>
  The flattening as the specification words it, for comparison with \<open>recurse_accounts\<close>:
  a depth-first walk in declaration order in which a leaf yields one entry, its path of
  names with its signer and writable flags, and a group yields only what its members yield.
\<close>

fun spec_flatten_item :: "string list \<Rightarrow> IdlAccountItem \<Rightarrow> (string list \<times> bool \<times> bool) list" where
  "spec_flatten_item path (IdlAccount name is_mut is_signer) = [(path @ [name], is_signer, is_mut)]"
| "spec_flatten_item path (IdlAccounts name accounts) =
     concat (map (spec_flatten_item (path @ [name])) accounts)"

definition spec_flatten :: "string list \<Rightarrow> IdlAccountItem list \<Rightarrow> (string list \<times> bool \<times> bool) list" where
  "spec_flatten path accs = concat (map (spec_flatten_item path) accs)"

fun leaf_count :: "IdlAccountItem \<Rightarrow> nat" where
  "leaf_count (IdlAccount name is_mut is_signer) = 1"
| "leaf_count (IdlAccounts name accounts) = sum_list (map leaf_count accounts)"

declare b58encode_int.simps [simp del] bytes_of_int_big.simps [simp del]

section \<open>Properties of the account client\<close>

subsection \<open>Decoding\<close>

lemma length_discriminator: "length discriminator = 8"
  by (simp add: discriminator_def)

lemma layout_parse_not_discriminator_error:
  "layout_parse s \<noteq> Inl (AccountInvalidDiscriminator m)"
  by (auto simp: layout_parse_def BorshPubkey_parse_def U64_parse_def
      split: sum.splits prod.splits if_splits)

text \<open>
  Claim C10. A byte string shorter than 8 bytes is rejected by the discriminator check:
  its prefix \<^verbatim>\<open>data[:8]\<close> is the whole string, too short to equal the 8-byte discriminator,
  so \<^verbatim>\<open>decode\<close> raises \<^verbatim>\<open>AccountInvalidDiscriminator\<close> and the layout parser is never run
  (no stream error, no index error).
\<close>

theorem decode_short_raises:
  "length bytes_data < 8 \<Longrightarrow>
     decode bytes_data
       = Inl (AccountInvalidDiscriminator ''The discriminator for this account is invalid'')"
proof -
  assume short: "length bytes_data < 8"
  have "take ACCOUNT_DISCRIMINATOR_SIZE bytes_data \<noteq> discriminator"
  proof
    assume "take ACCOUNT_DISCRIMINATOR_SIZE bytes_data = discriminator"
    then have "length (take ACCOUNT_DISCRIMINATOR_SIZE bytes_data) = length discriminator"
      by (rule arg_cong)
    with short show False
      by (simp add: length_discriminator)
  qed
  then show ?thesis by (simp add: decode_def)
qed

theorem decode_short_raises_witness:
  "length [0xff, 0xb0, 0x04 :: byte] < 8 \<and>
   decode [0xff, 0xb0, 0x04]
     = Inl (AccountInvalidDiscriminator ''The discriminator for this account is invalid'')"
  using decode_short_raises [of "[0xff, 0xb0, 0x04]"] by simp

text \<open>
  Claim C6. \<^verbatim>\<open>decode\<close> raises \<^verbatim>\<open>AccountInvalidDiscriminator\<close> exactly when the first 8
  bytes differ from the account's discriminator; when they agree, its result is that of the
  struct layout on the remaining bytes, put into the typed record (an error of the layout
  parser, which is never the discriminator error, passes through).
\<close>

theorem decode_discriminator_check:
  "((\<exists>m. decode bytes_data = Inl (AccountInvalidDiscriminator m)) \<longleftrightarrow>
      take 8 bytes_data \<noteq> discriminator) \<and>
   (take 8 bytes_data = discriminator \<longrightarrow>
      decode bytes_data =
        (case layout_parse (drop 8 bytes_data) of
           Inl e \<Rightarrow> Inl e
         | Inr dec \<Rightarrow> Inr \<lparr>authority = fst dec, count = snd dec\<rparr>))"
  using layout_parse_not_discriminator_error
  by (auto simp: decode_def ACCOUNT_DISCRIMINATOR_SIZE_def split: sum.splits)

lemma decode_example:
  "decode (discriminator @ replicate 32 7 @ [5, 1, 0, 0, 0, 0, 0, 0])
     = Inr \<lparr>authority = PublicKey (replicate 32 7), count = 261\<rparr>"
  by code_simp

theorem decode_discriminator_check_witness:
  "((\<exists>m. decode (discriminator @ replicate 32 7 @ [5, 1, 0, 0, 0, 0, 0, 0])
          = Inl (AccountInvalidDiscriminator m)) \<longleftrightarrow>
      take 8 (discriminator @ replicate 32 7 @ [5, 1, 0, 0, 0, 0, 0, 0]) \<noteq> discriminator) \<and>
    take 8 (discriminator @ replicate 32 7 @ [5, 1, 0, 0, 0, 0, 0, 0]) = discriminator \<and>
    decode (discriminator @ replicate 32 7 @ [5, 1, 0, 0, 0, 0, 0, 0])
      = Inr \<lparr>authority = PublicKey (replicate 32 7), count = 261\<rparr>"
proof -
  let ?d = "discriminator @ replicate 32 7 @ [5, 1, 0, 0, 0, 0, 0, 0]"
  have t: "take 8 ?d = discriminator"
    by (simp add: length_discriminator)
  from decode_discriminator_check [of ?d]
  have "(\<exists>m. decode ?d = Inl (AccountInvalidDiscriminator m)) \<longleftrightarrow> take 8 ?d \<noteq> discriminator"
    by (rule conjunct1)
  with t decode_example show ?thesis
    by simp
qed

text \<open>What the layout makes of the bytes after a matching discriminator.\<close>

lemma decode_long_enough:
  "take 8 bytes_data = discriminator \<Longrightarrow> 48 \<le> length bytes_data \<Longrightarrow>
   decode bytes_data =
     Inr \<lparr>authority = PublicKey (take 32 (drop 8 bytes_data)),
          count = int_from_bytes_little (take 8 (drop 40 bytes_data))\<rparr>"
proof -
  assume d: "take 8 bytes_data = discriminator" and len: "48 \<le> length bytes_data"
  from len have a: "\<not> length (drop 8 bytes_data) < 32" by simp
  from len have b: "\<not> length (drop 32 (drop 8 bytes_data)) < 8" by simp
  show ?thesis
    using d a b
    by (simp add: decode_def ACCOUNT_DISCRIMINATOR_SIZE_def layout_parse_def BorshPubkey_parse_def
        U64_parse_def del: length_drop drop_drop) (simp add: add.commute)
qed

lemma decode_truncated:
  "take 8 bytes_data = discriminator \<Longrightarrow> length bytes_data < 48 \<Longrightarrow>
   decode bytes_data = Inl (StreamError ''stream read less than specified amount'')"
  by (auto simp add: decode_def ACCOUNT_DISCRIMINATOR_SIZE_def layout_parse_def BorshPubkey_parse_def
      U64_parse_def)

subsection \<open>Base58 text of a public key\<close>

lemma index_of_nth:
  "distinct xs \<Longrightarrow> i < length xs \<Longrightarrow> index_of (xs ! i) xs = Some i"
proof (induction xs arbitrary: i)
  case Nil
  then show ?case by simp
next
  case (Cons x xs)
  show ?case
  proof (cases i)
    case 0
    then show ?thesis by simp
  next
    case (Suc j)
    with Cons.prems have "xs ! j \<noteq> x" and "j < length xs" and "distinct xs"
      by auto
    with Cons.IH [of j] Suc show ?thesis by auto
  qed
qed

lemma distinct_b58_alphabet: "distinct b58_alphabet"
  by (simp add: b58_alphabet_def)

lemma length_b58_alphabet: "length b58_alphabet = 58"
  by (simp add: b58_alphabet_def)

lemma b58_index_of_digit:
  "d < 58 \<Longrightarrow> index_of (b58_alphabet ! d) b58_alphabet = Some d"
  by (rule index_of_nth) (simp_all add: distinct_b58_alphabet length_b58_alphabet)

lemma b58_digit_not_one:
  assumes "0 < d" "d < 58"
  shows "b58_alphabet ! d \<noteq> CHR ''1''"
proof -
  have "b58_alphabet ! d \<noteq> b58_alphabet ! 0"
    using assms distinct_b58_alphabet length_b58_alphabet
    by (simp add: nth_eq_iff_index_eq)
  then show ?thesis by (simp add: b58_alphabet_def)
qed

lemma b58encode_int_0: "b58encode_int 0 s = s"
  by (subst b58encode_int.simps) simp

lemma b58encode_int_pos:
  "0 < i \<Longrightarrow> b58encode_int i s = b58encode_int (i div 58) (b58_alphabet ! (i mod 58) # s)"
  by (subst b58encode_int.simps) simp

lemma b58encode_int_acc: "b58encode_int i s = b58encode_int i [] @ s"
proof (induction i arbitrary: s rule: less_induct)
  case (less i)
  show ?case
  proof (cases "i = 0")
    case True
    then show ?thesis by (simp add: b58encode_int_0)
  next
    case False
    then have lt: "i div 58 < i" and pos: "0 < i" by simp_all
    let ?a = "b58_alphabet ! (i mod 58)"
    have "b58encode_int i s = b58encode_int (i div 58) (?a # s)"
      by (rule b58encode_int_pos [OF pos])
    also have "\<dots> = b58encode_int (i div 58) [] @ ?a # s"
      by (rule less.IH [OF lt])
    also have "\<dots> = (b58encode_int (i div 58) [] @ [?a]) @ s"
      by simp
    also have "b58encode_int (i div 58) [] @ [?a] = b58encode_int (i div 58) [?a]"
      by (rule less.IH [OF lt, symmetric])
    also have "b58encode_int (i div 58) [?a] = b58encode_int i []"
      by (rule b58encode_int_pos [OF pos, symmetric])
    finally show ?thesis .
  qed
qed

lemma b58encode_int_snoc:
  "0 < i \<Longrightarrow> b58encode_int i [] = b58encode_int (i div 58) [] @ [b58_alphabet ! (i mod 58)]"
  using b58encode_int_pos [of i "[]"] b58encode_int_acc [of "i div 58" "[b58_alphabet ! (i mod 58)]"]
  by simp

lemma b58decode_int_append:
  "b58decode_int (xs @ ys) d =
     (case b58decode_int xs d of Inl e \<Rightarrow> Inl e | Inr d' \<Rightarrow> b58decode_int ys d')"
  by (induction xs arbitrary: d) (auto split: option.splits)

lemma b58decode_encode_int: "b58decode_int (b58encode_int i []) 0 = Inr i"
proof (induction i rule: less_induct)
  case (less i)
  show ?case
  proof (cases "i = 0")
    case True
    then show ?thesis by (simp add: b58encode_int_0)
  next
    case False
    then have lt: "i div 58 < i" and pos: "0 < i" by simp_all
    have d: "index_of (b58_alphabet ! (i mod 58)) b58_alphabet = Some (i mod 58)"
      by (rule b58_index_of_digit) simp
    show ?thesis
      by (simp add: b58encode_int_snoc [OF pos] b58decode_int_append less.IH [OF lt] d)
  qed
qed

lemma b58encode_int_first:
  "0 < i \<Longrightarrow> b58encode_int i [] \<noteq> [] \<and> hd (b58encode_int i []) \<noteq> CHR ''1''"
proof (induction i rule: less_induct)
  case (less i)
  then have pos: "0 < i" by simp
  show ?case
  proof (cases "i div 58 = 0")
    case True
    then have "i mod 58 = i" and "i < 58"
      by (simp_all add: div_eq_0_iff)
    with pos have "b58_alphabet ! (i mod 58) \<noteq> CHR ''1''"
      by (simp add: b58_digit_not_one)
    with True show ?thesis
      by (simp add: b58encode_int_snoc [OF pos] b58encode_int_0)
  next
    case False
    then have "0 < i div 58" and "i div 58 < i" using pos by simp_all
    with less.IH [of "i div 58"] show ?thesis
      by (simp add: b58encode_int_snoc [OF pos])
  qed
qed

lemma dropWhile_replicate_append:
  "ys = [] \<or> \<not> P (hd ys) \<Longrightarrow> P x \<Longrightarrow> dropWhile P (replicate n x @ ys) = ys"
  by (induction n) (cases ys; auto)+

lemma b58encode_int_drop_ones:
  "dropWhile (\<lambda>c. c = CHR ''1'') (replicate n (CHR ''1'') @ b58encode_int i []) = b58encode_int i []"
proof (rule dropWhile_replicate_append)
  show "b58encode_int i [] = [] \<or> \<not> hd (b58encode_int i []) = CHR ''1''"
    using b58encode_int_first [of i] by (cases "i = 0") (simp_all add: b58encode_int_0)
qed simp

lemma bytes_of_int_big_0: "bytes_of_int_big 0 r = r"
  by (subst bytes_of_int_big.simps) simp

lemma bytes_of_int_big_pos:
  "0 < n \<Longrightarrow> bytes_of_int_big n r = bytes_of_int_big (n div 256) (of_nat (n mod 256) # r)"
  by (subst bytes_of_int_big.simps) simp

lemma bytes_of_int_big_acc: "bytes_of_int_big n r = bytes_of_int_big n [] @ r"
proof (induction n arbitrary: r rule: less_induct)
  case (less n)
  show ?case
  proof (cases "n = 0")
    case True
    then show ?thesis by (simp add: bytes_of_int_big_0)
  next
    case False
    then have lt: "n div 256 < n" and pos: "0 < n" by simp_all
    let ?b = "of_nat (n mod 256) :: byte"
    have "bytes_of_int_big n r = bytes_of_int_big (n div 256) (?b # r)"
      by (rule bytes_of_int_big_pos [OF pos])
    also have "\<dots> = bytes_of_int_big (n div 256) [] @ ?b # r"
      by (rule less.IH [OF lt])
    also have "\<dots> = (bytes_of_int_big (n div 256) [] @ [?b]) @ r"
      by simp
    also have "bytes_of_int_big (n div 256) [] @ [?b] = bytes_of_int_big (n div 256) [?b]"
      by (rule less.IH [OF lt, symmetric])
    also have "bytes_of_int_big (n div 256) [?b] = bytes_of_int_big n []"
      by (rule bytes_of_int_big_pos [OF pos, symmetric])
    finally show ?thesis .
  qed
qed

lemma int_from_bytes_big_snoc:
  "int_from_bytes_big (bs @ [b]) acc = int_from_bytes_big bs acc * 256 + unat b"
  by (induction bs arbitrary: acc) simp_all

lemma unat_byte_less: "unat (b :: byte) < 256"
  using unsigned_less [of b] by simp

lemma bytes_of_int_big_snoc:
  assumes "0 < n * 256 + unat (b :: byte)"
  shows "bytes_of_int_big (n * 256 + unat b) [] = bytes_of_int_big n [] @ [b]"
proof -
  have "(n * 256 + unat b) div 256 = n" and "(n * 256 + unat b) mod 256 = unat b"
    using unat_byte_less [of b] by simp_all
  then have "bytes_of_int_big (n * 256 + unat b) [] = bytes_of_int_big n [b]"
    using bytes_of_int_big_pos [OF assms, of "[]"] by simp
  then show ?thesis
    using bytes_of_int_big_acc [of n "[b]"] by simp
qed

lemma bytes_of_int_from_bytes:
  "bs = [] \<or> hd bs \<noteq> 0 \<Longrightarrow> bytes_of_int_big (int_from_bytes_big bs 0) [] = bs"
proof (induction bs rule: rev_induct)
  case Nil
  show ?case by (simp add: bytes_of_int_big_0)
next
  case (snoc b bs)
  show ?case
  proof (cases "bs = []")
    case True
    with snoc.prems have "b \<noteq> 0" by simp
    then have "0 < unat b" by (simp add: unat_gt_0)
    then show ?thesis
      using True bytes_of_int_big_snoc [of 0 b] by (simp add: bytes_of_int_big_0)
  next
    case False
    with snoc.prems have hd: "hd bs \<noteq> 0" by simp
    then have ih: "bytes_of_int_big (int_from_bytes_big bs 0) [] = bs"
      using snoc.IH by simp
    have "int_from_bytes_big bs 0 \<noteq> 0"
    proof
      assume "int_from_bytes_big bs 0 = 0"
      with ih have "bs = []" by (simp add: bytes_of_int_big_0)
      with False show False by simp
    qed
    then have "0 < int_from_bytes_big bs 0 * 256 + unat b" by simp
    from bytes_of_int_big_snoc [OF this] ih show ?thesis
      by (simp add: int_from_bytes_big_snoc)
  qed
qed

lemma dropWhile_hd: "dropWhile P xs = [] \<or> \<not> P (hd (dropWhile P xs))"
  using hd_dropWhile [of P xs] by blast

lemma replicate_takeWhile_eq: "replicate (length (takeWhile (\<lambda>x. x = a) xs)) a = takeWhile (\<lambda>x. x = a) xs"
  by (induction xs) auto

lemma length_minus_dropWhile: "length xs - length (dropWhile P xs) = length (takeWhile P xs)"
  by (induction xs) (auto simp: Suc_diff_le length_dropWhile_le)

lemma b58decode_b58encode: "b58decode (b58encode v) = Inr v"
proof -
  let ?w = "dropWhile (\<lambda>b. b = 0) v"
  let ?z = "length v - length ?w"
  let ?e = "b58encode_int (int_from_bytes_big ?w 0) []"
  have enc: "b58encode v = replicate ?z (CHR ''1'') @ ?e"
    by (simp add: b58encode_def Let_def)
  have drop: "dropWhile (\<lambda>c. c = CHR ''1'') (replicate ?z (CHR ''1'') @ ?e) = ?e"
    by (rule b58encode_int_drop_ones)
  have z: "length (replicate ?z (CHR ''1'') @ ?e) - length ?e = ?z"
    by simp
  have bytes_rt: "bytes_of_int_big (int_from_bytes_big ?w 0) [] = ?w"
    by (rule bytes_of_int_from_bytes) (use dropWhile_hd [of "\<lambda>b. b = 0" v] in simp)
  have "b58decode (b58encode v) = Inr (replicate ?z 0 @ ?w)"
    unfolding enc b58decode_def Let_def drop z
    by (simp add: b58decode_encode_int bytes_rt)
  also have "replicate ?z 0 @ ?w = takeWhile (\<lambda>b. b = 0) v @ ?w"
    by (simp only: length_minus_dropWhile replicate_takeWhile_eq)
  finally show ?thesis by simp
qed

text \<open>
  The model against the example of the \<^verbatim>\<open>base58\<close> package's documentation: the bytes of
  \<^verbatim>\<open>hello world\<close> and their Base58 text.
\<close>

lemma b58encode_hello_world:
  "b58encode [104, 101, 108, 108, 111, 32, 119, 111, 114, 108, 100] = ''StV1DL6CwTryKyV''"
  by (simp add: b58encode_def b58encode_int_pos b58encode_int_0 b58_alphabet_def)

lemma b58decode_hello_world:
  "b58decode ''StV1DL6CwTryKyV'' = Inr [104, 101, 108, 108, 111, 32, 119, 111, 114, 108, 100]"
  by (simp add: b58decode_def bytes_of_int_big_pos bytes_of_int_big_0 b58_alphabet_def)

lemma PublicKey_of_str_str:
  "length (key_bytes pk) = 32 \<Longrightarrow> PublicKey_of_str (PublicKey_str pk) = Inr pk"
  by (simp add: PublicKey_of_str_def PublicKey_str_def b58decode_b58encode PublicKey_LENGTH_def)

lemma PublicKey_str_zeros:
  "PublicKey_str (PublicKey (replicate 32 0)) = ''11111111111111111111111111111111''"
  by code_simp

subsection \<open>The plain representation\<close>

text \<open>
  Claim C9. Converting an account record to its plain key/value form and back loses
  nothing: \<^verbatim>\<open>from_json(to_json(r))\<close> returns \<open>r\<close>, the address being held in the plain form
  as its canonical (Base58) string. A public key is its 32-byte value.
\<close>

theorem from_json_to_json:
  "length (key_bytes (authority r)) = 32 \<Longrightarrow>
     from_json (to_json r) = Inr r \<and> json_authority (to_json r) = PublicKey_str (authority r)"
  by (simp add: from_json_def to_json_def PublicKey_of_str_str)

theorem from_json_to_json_witness:
  "length (key_bytes (authority \<lparr>authority = PublicKey (replicate 32 0), count = 7\<rparr>)) = 32 \<and>
   from_json (to_json \<lparr>authority = PublicKey (replicate 32 0), count = 7\<rparr>)
     = Inr \<lparr>authority = PublicKey (replicate 32 0), count = 7\<rparr> \<and>
   to_json \<lparr>authority = PublicKey (replicate 32 0), count = 7\<rparr>
     = \<lparr>json_authority = ''11111111111111111111111111111111'', json_count = 7\<rparr>"
  using from_json_to_json [of "\<lparr>authority = PublicKey (replicate 32 0), count = 7\<rparr>"]
  by (simp add: to_json_def PublicKey_str_zeros)

subsection \<open>Fetching\<close>

text \<open>
  Claim C5. When the connection returns an account whose recorded owner is not the program
  id, \<^verbatim>\<open>fetch\<close> raises the owner-mismatch error (in this client the \<^verbatim>\<open>ValueError\<close> with the
  message "Account does not belong to this program"), whatever the account's bytes are and
  whatever the Base64 decoder makes of them; it returns no record.
\<close>

theorem fetch_owner_mismatch:
  "get_account_info conn address commitment = Inr (Some info) \<Longrightarrow>
   owner info \<noteq> PublicKey_str PROGRAM_ID \<Longrightarrow>
   fetch PROGRAM_ID b64decode conn address commitment
     = Inl (ValueError ''Account does not belong to this program'')"
  by (simp add: fetch_def)

theorem fetch_owner_mismatch_witness:
  "get_account_info
      \<lparr>get_account_info = (\<lambda>a c. Inr (Some \<lparr>owner = ''Fg6PaFpoGXkYsidMpWTK6W2BeZ7FEfcYkg476zPFsLnS'', data = [''/w=='', ''base64'']\<rparr>)),
       get_multiple_accounts = (\<lambda>as c. Inr [])\<rparr> (0::nat) None
     = Inr (Some \<lparr>owner = ''Fg6PaFpoGXkYsidMpWTK6W2BeZ7FEfcYkg476zPFsLnS'', data = [''/w=='', ''base64'']\<rparr>) \<and>
   owner \<lparr>owner = ''Fg6PaFpoGXkYsidMpWTK6W2BeZ7FEfcYkg476zPFsLnS'', data = [''/w=='', ''base64'']\<rparr>
     \<noteq> PublicKey_str (PublicKey (replicate 32 0)) \<and>
   decode (discriminator @ replicate 32 7 @ [5, 1, 0, 0, 0, 0, 0, 0])
     = Inr \<lparr>authority = PublicKey (replicate 32 7), count = 261\<rparr> \<and>
   fetch (PublicKey (replicate 32 0)) (\<lambda>s. Inr (discriminator @ replicate 32 7 @ [5, 1, 0, 0, 0, 0, 0, 0]))
      \<lparr>get_account_info = (\<lambda>a c. Inr (Some \<lparr>owner = ''Fg6PaFpoGXkYsidMpWTK6W2BeZ7FEfcYkg476zPFsLnS'', data = [''/w=='', ''base64'']\<rparr>)),
       get_multiple_accounts = (\<lambda>as c. Inr [])\<rparr> (0::nat) None
     = Inl (ValueError ''Account does not belong to this program'')"
  using fetch_owner_mismatch
    [of "\<lparr>get_account_info = (\<lambda>a c. Inr (Some \<lparr>owner = ''Fg6PaFpoGXkYsidMpWTK6W2BeZ7FEfcYkg476zPFsLnS'', data = [''/w=='', ''base64'']\<rparr>)),
       get_multiple_accounts = (\<lambda>as c. Inr [])\<rparr>" "0::nat" None
       "\<lparr>owner = ''Fg6PaFpoGXkYsidMpWTK6W2BeZ7FEfcYkg476zPFsLnS'', data = [''/w=='', ''base64'']\<rparr>"
       "PublicKey (replicate 32 0)"
       "\<lambda>s. Inr (discriminator @ replicate 32 7 @ [5, 1, 0, 0, 0, 0, 0, 0])"]
  by (simp add: PublicKey_str_zeros decode_example)

text \<open>
  An absent element stops \<^verbatim>\<open>fetch_multiple\<close>: whatever else the batch holds, the loop
  raises and no list is returned.
\<close>

lemma fetch_multiple_loop_absent:
  "None \<in> set infos \<Longrightarrow> \<exists>e. fetch_multiple_loop PROGRAM_ID b64decode infos res = Inl e"
proof (induction infos arbitrary: res)
  case Nil
  then show ?case by simp
next
  case (Cons info infos)
  show ?case
  proof (cases info)
    case None
    then show ?thesis by simp
  next
    case (Some i)
    with Cons.prems have "None \<in> set infos" by simp
    then show ?thesis
      using Cons.IH Some by (auto simp: Let_def split: list.splits sum.splits)
  qed
qed

text \<open>
  Claim C1. The claim asks that \<^verbatim>\<open>fetch_multiple\<close> record an absent element as \<^verbatim>\<open>None\<close> and go
  on to the next one. The code does not: on the batch \<^verbatim>\<open>[absent, valid]\<close> of the
  specification's own example it appends \<^verbatim>\<open>None\<close>, falls through to \<^verbatim>\<open>info["owner"]\<close> with
  \<^verbatim>\<open>info\<close> being \<^verbatim>\<open>None\<close>, and raises \<^verbatim>\<open>TypeError\<close> instead of returning a two-element list.
\<close>

theorem fetch_multiple_absent_raises:
  "fetch_multiple PROGRAM_ID b64decode
      \<lparr>get_account_info = g,
       get_multiple_accounts =
         (\<lambda>addresses c. Inr (map (\<lambda>a. if a = ''addrB''
                                    then Some \<lparr>owner = PublicKey_str PROGRAM_ID, data = [d, ''base64'']\<rparr>
                                    else None) addresses))\<rparr>
      [''addrA'', ''addrB''] None
     = Inl (TypeError ''NoneType object is not subscriptable'')"
  by (simp add: fetch_multiple_def)

section \<open>Properties of the error module\<close>

text \<open>
  Claim C7. \<^verbatim>\<open>from_code\<close> consults the custom table exactly for the codes from 6000 upwards
  and the framework table for the codes below 6000: \<^verbatim>\<open>from_code(6000)\<close> is what the custom
  table holds at 6000, \<^verbatim>\<open>from_code(5999)\<close> what the framework table holds at 5999, and a code
  that its table does not list yields \<^verbatim>\<open>None\<close>, in either range.
\<close>

theorem from_code_dispatch:
  "(6000 \<le> code \<longrightarrow> from_code c a code = map_option Inl (c code)) \<and>
   (code < 6000 \<longrightarrow> from_code c a code = map_option Inr (a code)) \<and>
   from_code c a 6000 = map_option Inl (c 6000) \<and>
   from_code c a 5999 = map_option Inr (a 5999) \<and>
   (6000 \<le> code \<and> c code = None \<longrightarrow> from_code c a code = None) \<and>
   (code < 6000 \<and> a code = None \<longrightarrow> from_code c a code = None)"
  by (simp add: from_code_def)

theorem from_code_dispatch_witness:
  "from_code [6000 \<mapsto> ''TileOutOfBounds'', 6001 \<mapsto> ''TileAlreadySet''] [100 \<mapsto> ''InstructionMissing''] 6000
     = Some (Inl ''TileOutOfBounds'') \<and>
   from_code [6000 \<mapsto> ''TileOutOfBounds'', 6001 \<mapsto> ''TileAlreadySet''] [100 \<mapsto> ''InstructionMissing''] 6001
     = Some (Inl ''TileAlreadySet'') \<and>
   from_code [6000 \<mapsto> ''TileOutOfBounds'', 6001 \<mapsto> ''TileAlreadySet''] [100 \<mapsto> ''InstructionMissing''] 100
     = Some (Inr ''InstructionMissing'') \<and>
   from_code [6000 \<mapsto> ''TileOutOfBounds'', 6001 \<mapsto> ''TileAlreadySet''] [100 \<mapsto> ''InstructionMissing''] 5999
     = None \<and>
   from_code [6000 \<mapsto> ''TileOutOfBounds'', 6001 \<mapsto> ''TileAlreadySet''] [100 \<mapsto> ''InstructionMissing''] 999999
     = None"
  using from_code_dispatch [of 6001 "[6000 \<mapsto> ''TileOutOfBounds'', 6001 \<mapsto> ''TileAlreadySet'']" "[100 \<mapsto> ''InstructionMissing'']"]
        from_code_dispatch [of 100 "[6000 \<mapsto> ''TileOutOfBounds'', 6001 \<mapsto> ''TileAlreadySet'']" "[100 \<mapsto> ''InstructionMissing'']"]
        from_code_dispatch [of 999999 "[6000 \<mapsto> ''TileOutOfBounds'', 6001 \<mapsto> ''TileAlreadySet'']" "[100 \<mapsto> ''InstructionMissing'']"]
  by simp

text \<open>The cases of the log scan that do answer \<^verbatim>\<open>None\<close>.\<close>

lemma scan_logs_no_match:
  "\<forall>l \<in> set logs. error_re_match l = None \<Longrightarrow>
   scan_logs logs fm = (if logs = [] then fm else Bound None)"
  by (induction logs arbitrary: fm) auto

lemma from_tx_error_no_match:
  "logs \<noteq> [] \<Longrightarrow> \<forall>l \<in> set logs. error_re_match l = None \<Longrightarrow>
   from_tx_error PROGRAM_ID c a (Some logs) = Inr None"
  by (simp add: from_tx_error_def scan_logs_no_match)

lemma from_tx_error_no_logs: "from_tx_error PROGRAM_ID c a None = Inr None"
  by (simp add: from_tx_error_def)

text \<open>
  Claim C3. The claim asks for \<^verbatim>\<open>None\<close>, without an exception, whenever no log line matches,
  the empty list of logs included. On the empty list the loop body never runs,
  \<^verbatim>\<open>first_match\<close> is never assigned, and the test \<^verbatim>\<open>first_match is None\<close> raises
  \<^verbatim>\<open>UnboundLocalError\<close>.
\<close>

theorem from_tx_error_empty_logs:
  "from_tx_error PROGRAM_ID c a (Some [])
     = Inl (UnboundLocalError ''local variable first_match referenced before assignment'')"
  by (simp add: from_tx_error_def)

text \<open>
  Once a line of this program matches, the call \<^verbatim>\<open>code_raw(16)\<close> raises \<^verbatim>\<open>TypeError\<close>, which
  \<^verbatim>\<open>except ValueError\<close> does not catch; so \<^verbatim>\<open>from_tx_error\<close> never returns a typed error.
\<close>

lemma from_tx_error_own_program_raises:
  "scan_logs logs Unbound = Bound (Some (PublicKey_str PROGRAM_ID, code_raw)) \<Longrightarrow>
   from_tx_error PROGRAM_ID c a (Some logs) = Inl (TypeError ''str object is not callable'')"
  by (simp add: from_tx_error_def call_str_def)

lemma from_tx_error_never_typed:
  "from_tx_error PROGRAM_ID c a error_logs \<noteq> Inr (Some e)"
  by (auto simp: from_tx_error_def call_str_def split: option.splits local_var.splits prod.splits)

lemma scan_logs_example:
  "scan_logs [''Program 11111111111111111111111111111111 invoke [1]'',
              ''Program 11111111111111111111111111111111 failed: custom program error: xyz''] Unbound
   = Bound (Some (''11111111111111111111111111111111'', ''xyz''))"
  by code_simp

text \<open>
  Claim C4. The claim asks for \<^verbatim>\<open>None\<close>, without an exception, when a line matches, names
  this program and carries a code that is no integer. With the program id
  \<^verbatim>\<open>11111111111111111111111111111111\<close> and the code segment \<^verbatim>\<open>xyz\<close> the code raises
  \<^verbatim>\<open>TypeError\<close> instead: \<^verbatim>\<open>int(code_raw(16))\<close> calls the string before \<^verbatim>\<open>int\<close> sees anything.
\<close>

theorem from_tx_error_unparsable_code:
  "from_tx_error (PublicKey (replicate 32 0)) c a
     (Some [''Program 11111111111111111111111111111111 invoke [1]'',
            ''Program 11111111111111111111111111111111 failed: custom program error: xyz''])
     = Inl (TypeError ''str object is not callable'')"
  by (simp add: from_tx_error_def scan_logs_example PublicKey_str_zeros call_str_def
      del: scan_logs.simps)

section \<open>Properties of the instruction generator\<close>

lemma recurse_accounts_spec:
  "recurse_accounts accs nested_names
     = map (\<lambda>(path, is_signer, is_mut). account_meta_src path is_signer is_mut)
         (spec_flatten nested_names accs)"
  by (induction accs nested_names rule: recurse_accounts.induct) (simp_all add: spec_flatten_def)

lemma length_recurse_accounts:
  "length (recurse_accounts accs nested_names) = sum_list (map leaf_count accs)"
  by (induction accs nested_names rule: recurse_accounts.induct) simp_all

lemma account_meta_src_example:
  "account_meta_src [''pool'', ''vaultA''] False True
     = ''AccountMeta(pubkey=accounts['' @ [CHR 0x22] @ ''pool'' @ [CHR 0x22] @ ''][''
         @ [CHR 0x22] @ ''vaultA'' @ [CHR 0x22] @ ''], is_signer=False, is_writable=True)''"
  by (simp add: account_meta_src_def dict_key_def str_bool_def)

text \<open>
  Claim C8. For every list of account items, \<^verbatim>\<open>recurse_accounts\<close> is the depth-first
  flattening in declaration order: one entry for each leaf, written from the leaf's nested
  path and its signer and writable flags, and none for a group itself; so there are as many
  entries as leaves. The tree with the leaf \<^verbatim>\<open>poolAuthority\<close> and the group \<^verbatim>\<open>pool\<close> of
  \<^verbatim>\<open>vaultA\<close> and \<^verbatim>\<open>vaultB\<close> flattens to the entries for \<^verbatim>\<open>poolAuthority\<close>, \<^verbatim>\<open>pool.vaultA\<close>,
  \<^verbatim>\<open>pool.vaultB\<close>, in this order.
\<close>

theorem recurse_accounts_flatten:
  "recurse_accounts accs nested_names
     = map (\<lambda>(path, is_signer, is_mut). account_meta_src path is_signer is_mut)
         (spec_flatten nested_names accs) \<and>
   length (recurse_accounts accs nested_names) = sum_list (map leaf_count accs) \<and>
   recurse_accounts
     [IdlAccount ''poolAuthority'' False True,
      IdlAccounts ''pool'' [IdlAccount ''vaultA'' True False, IdlAccount ''vaultB'' True False]] []
     = [account_meta_src [''poolAuthority''] True False,
        account_meta_src [''pool'', ''vaultA''] False True,
        account_meta_src [''pool'', ''vaultB''] False True]"
  by (simp add: recurse_accounts_spec [symmetric] length_recurse_accounts)

text \<open>What the constructor of an instruction looks like, without and with arguments.\<close>

lemma gen_instruction_function_no_args:
  "ix_args ix = [] \<Longrightarrow>
   gen_instruction_function h idl ix
     = Function (ix_name ix) []
         (Suite [Assign ''keys'' (ListOf (recurse_accounts (ix_accounts ix) [])),
                 Assign ''identifier'' (BytesLit (sighash h (ix_name ix))),
                 Assign ''encoded_args'' (Src (''layout.build('' @ StrDict_str h [] @ '')'')),
                 Assign ''data'' (Src ''identifier + encoded_args''),
                 Return ''TransactionInstruction(data, keys, PROGRAM_ID)''])
         ''TransactionInstruction''"
  by (simp add: gen_instruction_function_def)

lemma gen_instruction_function_with_args:
  "ix_args ix \<noteq> [] \<Longrightarrow>
   \<exists>body. gen_instruction_function h idl ix
     = Function (ix_name ix)
         [TypedParam ''args'' (upper_camel h (ix_name ix) @ ''Args''),
          TypedParam ''accounts'' (upper_camel h (ix_name ix) @ ''Accounts'')]
         body ''TransactionInstruction''"
  by (simp add: gen_instruction_function_def args_interface_name_def accounts_interface_name_def)

text \<open>
  Claim C2. The claim asks that an instruction without arguments get a constructor taking
  only \<^verbatim>\<open>accounts\<close>, whose data is the 8-byte discriminator alone. For the instruction
  \<^verbatim>\<open>increment\<close> (no arguments, accounts \<^verbatim>\<open>counter\<close> and \<^verbatim>\<open>authority\<close>) the generated file holds
  a function with no parameter at all, although its body reads \<^verbatim>\<open>accounts\<close>; the body still
  computes \<^verbatim>\<open>encoded_args\<close> through \<^verbatim>\<open>layout.build\<close> and sets \<^verbatim>\<open>data\<close> to
  \<^verbatim>\<open>identifier + encoded_args\<close>, while the file assigns no \<^verbatim>\<open>layout\<close>.
\<close>

theorem gen_instructions_code_no_args:
  "gen_instructions_code h
     \<lparr>instructions =
        [\<lparr>ix_name = ''increment'',
          ix_accounts = [IdlAccount ''counter'' True False, IdlAccount ''authority'' False True],
          ix_args = []\<rparr>],
      types = []\<rparr>
     out (py_file h out ''increment'')
   = Some (node_str h (Collection
       [Import ''typing'',
        FromImport ''solana.publickey'' [''PublicKey''],
        FromImport ''solana.transaction'' [''TransactionInstruction'', ''AccountMeta''],
        ImportAs ''borsh_construct'' ''borsh'',
        FromImport ''..program_id'' [''PROGRAM_ID''],
        TypedDict (upper_camel h ''increment'' @ ''Accounts'')
          [TypedParam ''counter'' ''PublicKey'', TypedParam ''authority'' ''PublicKey''],
        Function ''increment'' []
          (Suite [Assign ''keys''
                    (ListOf [account_meta_src [''counter''] False True,
                             account_meta_src [''authority''] True False]),
                  Assign ''identifier'' (BytesLit (sighash h ''increment'')),
                  Assign ''encoded_args'' (Src (''layout.build('' @ StrDict_str h [] @ '')'')),
                  Assign ''data'' (Src ''identifier + encoded_args''),
                  Return ''TransactionInstruction(data, keys, PROGRAM_ID)''])
          ''TransactionInstruction'']))"
  by (simp add: gen_instructions_code_def gen_instruction_contents_def gen_instruction_function_def
      imports_of_def accounts_interface_name_def)

end
